theory Spec2Isabelle
  imports Complex_Main "HOL-Library.Word"
begin

section \<open>Data model (types.ts)\<close>

record Restaurant =
  name :: string
  cuisine :: string
  description :: string

record Coordinates =
  latitude :: real
  longitude :: real

text \<open>
  The display strings that App.tsx reads from \<open>uiText\<close>. The record has one field for
  every property the component accesses.
\<close>

record UIText =
  title :: string
  subtitle :: string
  findButton :: string
  loadingButton :: string
  loaderMessage :: string
  welcomeMessage :: string
  manualLocationPrompt :: string
  manualLocationPlaceholder :: string
  searchButton :: string
  locationNotSupported :: string
  locationPermissionDenied :: string
  locationUnavailable :: string
  locationTimeout :: string
  locationError :: string
  manualLocationError :: string
  fetchError :: string

text \<open>
  The table \<open>UI_TEXT\<close> is imported from constants.ts and is a parameter of the model:
  its own keys and their records. App.tsx takes \<open>UI_TEXT['en']\<close> as the initial value of
  the \<open>uiText\<close> cell and reads its fields in the first render, so the component exists
  only for a table that has that key; every other code may be an own key or not.
\<close>

record ui_table =
  en_entry :: UIText
  other_entries :: "string \<Rightarrow> UIText option"

definition own_entry :: "ui_table \<Rightarrow> string \<Rightarrow> UIText option" where
  "own_entry tb code = (if code = ''en'' then Some (en_entry tb) else other_entries tb code)"

text \<open>
  \<open>UI_TEXT[language]\<close> is a property read on an ordinary object. A name that is not an
  own key is looked up in \<open>Object.prototype\<close>, whose property names are listed here; the
  value found there is a function (for \<open>__proto__\<close>, the prototype object itself): truthy,
  and not a record of strings. Any other name reads as \<open>undefined\<close>.
\<close>

definition object_prototype_names :: "string list" where
  "object_prototype_names =
     [''constructor'', ''toString'', ''toLocaleString'', ''valueOf'', ''hasOwnProperty'',
      ''isPrototypeOf'', ''propertyIsEnumerable'', ''__proto__'', ''__defineGetter__'',
      ''__defineSetter__'', ''__lookupGetter__'', ''__lookupSetter__'']"

datatype table_value = Entry UIText | Inherited string | Undefined

definition UI_TEXT :: "ui_table \<Rightarrow> string \<Rightarrow> table_value" where
  "UI_TEXT tb code =
     (case own_entry tb code of
        Some t \<Rightarrow> Entry t
      | None \<Rightarrow> if code \<in> set object_prototype_names then Inherited code else Undefined)"

text \<open>\<open>UI_TEXT[language] || UI_TEXT['en']\<close>: only \<open>undefined\<close> is falsy here.\<close>

definition resolve :: "ui_table \<Rightarrow> string \<Rightarrow> table_value" where
  "resolve tb code =
     (case UI_TEXT tb code of
        Undefined \<Rightarrow> UI_TEXT tb ''en''
      | v \<Rightarrow> v)"

datatype direction = Ltr | Rtl

definition direction_of :: "string \<Rightarrow> direction" where
  "direction_of code = (if code = ''ar'' then Rtl else Ltr)"

section \<open>The text of the manual input\<close>

text \<open>
  The manual location is the only string the component inspects (\<open>trim\<close>), so it is
  modelled as JavaScript has it: a sequence of 16-bit code units. \<open>trim\<close> removes the
  code units of ECMAScript's WhiteSpace and LineTerminator productions from both ends.
\<close>

type_synonym js_string = "16 word list"

definition is_white_space :: "16 word \<Rightarrow> bool" where
  "is_white_space c =
     (c = 0x0009 \<or> c = 0x000A \<or> c = 0x000B \<or> c = 0x000C \<or> c = 0x000D \<or> c = 0x0020
      \<or> c = 0x00A0 \<or> c = 0x1680 \<or> (0x2000 \<le> c \<and> c \<le> 0x200A) \<or> c = 0x2028
      \<or> c = 0x2029 \<or> c = 0x202F \<or> c = 0x205F \<or> c = 0x3000 \<or> c = 0xFEFF)"

definition trim :: "js_string \<Rightarrow> js_string" where
  "trim s = rev (dropWhile is_white_space (rev (dropWhile is_white_space s)))"

section \<open>Component state (the useState cells of App)\<close>

record app_state =
  language :: string
  restaurants :: "Restaurant list"
  loading :: bool
  error :: "string option"
  userLocation :: "Coordinates option"
  uiText :: UIText
  manualLocation :: js_string
  showManualInput :: bool

type_synonym js_error = string

text \<open>
  What a handler does besides writing state: calls that leave the component. The three
  asynchronous ones are the geolocation request and the two provider calls.
\<close>

datatype effect =
    PreventDefault
  | ConsoleError js_error
  | SetDocumentDir direction
  | GetCurrentPosition
  | FetchRestaurants real real string
  | FetchRestaurantsByQuery js_string string

fun is_async_call :: "effect \<Rightarrow> bool" where
  "is_async_call GetCurrentPosition = True"
| "is_async_call (FetchRestaurants lat lon lang) = True"
| "is_async_call (FetchRestaurantsByQuery q lang) = True"
| "is_async_call e = False"

fun is_provider_call :: "effect \<Rightarrow> bool" where
  "is_provider_call (FetchRestaurants lat lon lang) = True"
| "is_provider_call (FetchRestaurantsByQuery q lang) = True"
| "is_provider_call e = False"

text \<open>
  A handler body is a sequence of statements: a state setter or an outgoing call. The
  setters of \<open>useState\<close> cells do not write the cells: they queue the new values, and
  the cells keep what they held when the handler started until the handler has returned
  and the queued values are committed. Running a body gives the committed state and, for
  every outgoing call, the state the cells held when the call was made and the state
  queued by the setters before it. \<open>setUiText(Object)\<close> passes a function, which the
  setter takes as an updater: \<open>Object(prev)\<close> is \<open>prev\<close>.
\<close>

datatype stmt =
    SetLanguage string
  | SetRestaurants "Restaurant list"
  | SetLoading bool
  | SetError "string option"
  | SetUserLocation "Coordinates option"
  | SetUiText UIText
  | SetUiTextByObject
  | SetManualLocation js_string
  | SetShowManualInput bool
  | Call effect

fun assign :: "stmt \<Rightarrow> app_state \<Rightarrow> app_state" where
  "assign (SetLanguage c) s = s\<lparr>language := c\<rparr>"
| "assign (SetRestaurants rs) s = s\<lparr>restaurants := rs\<rparr>"
| "assign (SetLoading b) s = s\<lparr>loading := b\<rparr>"
| "assign (SetError m) s = s\<lparr>error := m\<rparr>"
| "assign (SetUserLocation p) s = s\<lparr>userLocation := p\<rparr>"
| "assign (SetUiText t) s = s\<lparr>uiText := t\<rparr>"
| "assign SetUiTextByObject s = s\<lparr>uiText := uiText s\<rparr>"
| "assign (SetManualLocation q) s = s\<lparr>manualLocation := q\<rparr>"
| "assign (SetShowManualInput b) s = s\<lparr>showManualInput := b\<rparr>"
| "assign (Call e) s = s"

fun exec_from ::
  "app_state \<Rightarrow> stmt list \<Rightarrow> app_state
     \<Rightarrow> app_state \<times> (effect \<times> app_state \<times> app_state) list" where
  "exec_from held [] queued = (queued, [])"
| "exec_from held (Call e # rest) queued =
     (case exec_from held rest queued of
        (s', calls) \<Rightarrow> (s', (e, held, queued) # calls))"
| "exec_from held (st # rest) queued = exec_from held rest (assign st queued)"

definition exec ::
  "stmt list \<Rightarrow> app_state \<Rightarrow> app_state \<times> (effect \<times> app_state \<times> app_state) list" where
  "exec body s = exec_from s body s"

section \<open>The handlers of App.tsx\<close>

text \<open>
  The effect on \<open>language\<close> (lines 21-28). The \<open>uiText\<close> cell is modelled at its declared
  type, a record of strings. For a code that resolves to an entry the body is as
  written. For \<open>constructor\<close> that is not an own key the argument of \<open>setUiText\<close> is the
  function \<open>Object\<close>, which as an updater returns the strings the cell held. For any
  other inherited name the cell would receive a value that is not a record of strings,
  or the updater would throw: the effect then has no body in this model.
\<close>

definition language_effect :: "ui_table \<Rightarrow> string \<Rightarrow> stmt list option" where
  "language_effect tb lang =
     (case resolve tb lang of
        Entry t \<Rightarrow>
          Some [SetUiText t, Call (SetDocumentDir (if lang = ''ar'' then Rtl else Ltr))]
      | Inherited n \<Rightarrow>
          if n = ''constructor''
          then Some [SetUiTextByObject,
                     Call (SetDocumentDir (if lang = ''ar'' then Rtl else Ltr))]
          else None
      | Undefined \<Rightarrow> None)"

text \<open>
  \<open>handleFindRestaurants\<close> (lines 30-76), up to the geolocation request. The first
  argument is the truth value of \<open>navigator.geolocation\<close>; the second is the rendered
  state whose \<open>uiText\<close> the callback closes over.
\<close>

definition handleFindRestaurants :: "bool \<Rightarrow> app_state \<Rightarrow> stmt list" where
  "handleFindRestaurants geolocation s =
     [SetLoading True, SetError None, SetRestaurants [], SetShowManualInput False] @
     (if \<not> geolocation
      then [SetError (Some (locationNotSupported (uiText s))),
            SetShowManualInput True,
            SetLoading False]
      else [Call GetCurrentPosition])"

text \<open>The success callback (lines 44-48), up to the \<open>await\<close>.\<close>

definition position_callback :: "string \<Rightarrow> Coordinates \<Rightarrow> stmt list" where
  "position_callback lang coords =
     [SetUserLocation (Some \<lparr>latitude = latitude coords, longitude = longitude coords\<rparr>),
      Call (FetchRestaurants (latitude coords) (longitude coords) lang)]"

text \<open>
  The rest of the success callback (lines 48-55), run when the provider's promise
  settles: \<open>Inr\<close> is the fulfilled list, \<open>Inl\<close> the thrown value. The \<open>catch\<close> block
  handles every thrown value and the \<open>finally\<close> block runs on both branches.
\<close>

definition position_resume :: "UIText \<Rightarrow> js_error + Restaurant list \<Rightarrow> stmt list" where
  "position_resume txt settled =
     (case settled of
        Inr fetchedRestaurants \<Rightarrow> [SetRestaurants fetchedRestaurants]
      | Inl err \<Rightarrow> [SetError (Some (fetchError txt)), Call (ConsoleError err)])
     @ [SetLoading False]"

text \<open>
  The failure callback (lines 57-74). \<open>geoError.code\<close> is compared with the three
  constants of GeolocationPositionError, whose values the platform fixes.
\<close>

definition PERMISSION_DENIED :: nat where "PERMISSION_DENIED = 1"
definition POSITION_UNAVAILABLE :: nat where "POSITION_UNAVAILABLE = 2"
definition TIMEOUT :: nat where "TIMEOUT = 3"

definition geoError_message :: "UIText \<Rightarrow> nat \<Rightarrow> string" where
  "geoError_message txt code =
     (if code = PERMISSION_DENIED then locationPermissionDenied txt
      else if code = POSITION_UNAVAILABLE then locationUnavailable txt
      else if code = TIMEOUT then locationTimeout txt
      else locationError txt)"

definition geoError_callback :: "UIText \<Rightarrow> nat \<Rightarrow> stmt list" where
  "geoError_callback txt code =
     [SetError (Some (geoError_message txt code)),
      SetShowManualInput True,
      SetLoading False]"

text \<open>\<open>handleManualSearch\<close> (lines 78-88), up to the \<open>await\<close>.\<close>

definition handleManualSearch :: "app_state \<Rightarrow> stmt list" where
  "handleManualSearch s =
     Call PreventDefault #
     (if trim (manualLocation s) = []
      then [SetError (Some (manualLocationError (uiText s)))]
      else [SetLoading True, SetError None, SetRestaurants [],
            Call (FetchRestaurantsByQuery (manualLocation s) (language s))])"

text \<open>The rest of \<open>handleManualSearch\<close> (lines 88-95), run when the promise settles.\<close>

definition manual_resume :: "UIText \<Rightarrow> js_error + Restaurant list \<Rightarrow> stmt list" where
  "manual_resume txt settled =
     (case settled of
        Inr fetchedRestaurants \<Rightarrow> [SetRestaurants fetchedRestaurants]
      | Inl err \<Rightarrow> [SetError (Some (fetchError txt)), Call (ConsoleError err)])
     @ [SetLoading False]"

section \<open>Rendering (lines 118-160)\<close>

datatype view =
    ErrorDisplay string
  | ManualForm
  | Loader string
  | Welcome string
  | RestaurantList "Restaurant list"

text \<open>\<open>error && ...\<close>: null and the empty string are both falsy.\<close>

definition truthy :: "string option \<Rightarrow> bool" where
  "truthy m = (case m of None \<Rightarrow> False | Some t \<Rightarrow> t \<noteq> [])"

definition render :: "app_state \<Rightarrow> view list" where
  "render s =
     (case error s of
        None \<Rightarrow> []
      | Some m \<Rightarrow> if m \<noteq> [] then [ErrorDisplay m] else [])
     @ (if showManualInput s \<and> \<not> loading s then [ManualForm] else [])
     @ (if loading s then [Loader (loaderMessage (uiText s))] else [])
     @ (if \<not> loading s \<and> \<not> truthy (error s) \<and> length (restaurants s) = 0
           \<and> \<not> showManualInput s
        then [Welcome (welcomeMessage (uiText s))] else [])
     @ (if length (restaurants s) > 0 then [RestaurantList (restaurants s)] else [])"

text \<open>The find button carries \<open>disabled={loading}\<close>; the form exists only when rendered.\<close>

definition find_enabled :: "app_state \<Rightarrow> bool" where
  "find_enabled s = (\<not> loading s)"

definition form_rendered :: "app_state \<Rightarrow> bool" where
  "form_rendered s = (showManualInput s \<and> \<not> loading s)"

section \<open>The component in its environment\<close>

text \<open>
  Between two handlers the component is a rendered state, the document's direction and
  the asynchronous operations in flight. Each operation in flight holds the values its
  callbacks closed over when the handler that started it was created: \<open>uiText\<close>, and for
  the geolocation request also \<open>language\<close>.
\<close>

datatype continuation =
    GeoCallbacks UIText string
  | PositionResume UIText
  | ManualResume UIText

record world =
  app :: app_state
  dir :: direction
  pending :: "continuation list"

fun spawn :: "UIText \<Rightarrow> string \<Rightarrow> effect \<Rightarrow> continuation list" where
  "spawn txt lang GetCurrentPosition = [GeoCallbacks txt lang]"
| "spawn txt lang (FetchRestaurants lat lon l) = [PositionResume txt]"
| "spawn txt lang (FetchRestaurantsByQuery q l) = [ManualResume txt]"
| "spawn txt lang e = []"

fun new_dir :: "direction \<Rightarrow> effect \<Rightarrow> direction" where
  "new_dir d (SetDocumentDir d') = d'"
| "new_dir d e = d"

text \<open>
  Running a handler body on the world: the setters are applied, the document direction
  follows the assignments made, and every asynchronous call made is now in flight.
\<close>

definition commit :: "UIText \<Rightarrow> string \<Rightarrow> stmt list \<Rightarrow> world \<Rightarrow> world" where
  "commit txt lang body w =
     (case exec body (app w) of
        (s', calls) \<Rightarrow>
          \<lparr>app = s',
           dir = foldl new_dir (dir w) (map fst calls),
           pending = pending w @ concat (map (spawn txt lang \<circ> fst) calls)\<rparr>)"

definition drop_nth :: "nat \<Rightarrow> 'a list \<Rightarrow> 'a list" where
  "drop_nth i xs = take i xs @ drop (Suc i) xs"

text \<open>
  What can happen: the user picks a language, presses the find button, types into the
  manual input, submits the manual form; the geolocation request in flight at a given
  position of \<open>pending\<close> succeeds or fails; the provider call in flight at a given
  position settles. Something that cannot happen in the rendered state (a press on the
  disabled button, a form that is not there, a completion of nothing) changes nothing.
  The language selector is given \<open>SUPPORTED_LANGUAGES\<close>; a change to a code for which
  the effect has no body in this model is not followed.
\<close>

datatype event =
    LanguageChange string
  | FindClick
  | ManualInput js_string
  | ManualSubmit
  | GeoSuccess nat Coordinates
  | GeoFailure nat nat
  | FetchSettled nat "js_error + Restaurant list"

definition resume :: "nat \<Rightarrow> world \<Rightarrow> world" where
  "resume i w = w\<lparr>pending := drop_nth i (pending w)\<rparr>"

fun step :: "ui_table \<Rightarrow> bool \<Rightarrow> event \<Rightarrow> world \<Rightarrow> world" where
  "step tb geo (LanguageChange c) w =
     (if c = language (app w) then w
      else (case language_effect tb c of
              Some body \<Rightarrow> commit (uiText (app w)) c (SetLanguage c # body) w
            | None \<Rightarrow> w))"
| "step tb geo FindClick w =
     (if find_enabled (app w)
      then commit (uiText (app w)) (language (app w)) (handleFindRestaurants geo (app w)) w
      else w)"
| "step tb geo (ManualInput v) w =
     (if form_rendered (app w)
      then commit (uiText (app w)) (language (app w)) [SetManualLocation v] w
      else w)"
| "step tb geo ManualSubmit w =
     (if form_rendered (app w)
      then commit (uiText (app w)) (language (app w)) (handleManualSearch (app w)) w
      else w)"
| "step tb geo (GeoSuccess i coords) w =
     (if i < length (pending w)
      then (case pending w ! i of
              GeoCallbacks txt lang \<Rightarrow> commit txt lang (position_callback lang coords) (resume i w)
            | _ \<Rightarrow> w)
      else w)"
| "step tb geo (GeoFailure i code) w =
     (if i < length (pending w)
      then (case pending w ! i of
              GeoCallbacks txt lang \<Rightarrow> commit txt lang (geoError_callback txt code) (resume i w)
            | _ \<Rightarrow> w)
      else w)"
| "step tb geo (FetchSettled i settled) w =
     (if i < length (pending w)
      then (case pending w ! i of
              PositionResume txt \<Rightarrow>
                commit txt (language (app w)) (position_resume txt settled) (resume i w)
            | ManualResume txt \<Rightarrow>
                commit txt (language (app w)) (manual_resume txt settled) (resume i w)
            | _ \<Rightarrow> w)
      else w)"

definition run :: "ui_table \<Rightarrow> bool \<Rightarrow> event list \<Rightarrow> world \<Rightarrow> world" where
  "run tb geo evs w = foldl (\<lambda>w' ev. step tb geo ev w') w evs"

text \<open>The component after mounting: the initial \<open>useState\<close> values and the first effect.\<close>

definition initial_state :: "ui_table \<Rightarrow> app_state" where
  "initial_state tb =
     \<lparr>language = ''en'', restaurants = [], loading = False, error = None,
      userLocation = None, uiText = en_entry tb, manualLocation = [],
      showManualInput = False\<rparr>"

definition mounted :: "ui_table \<Rightarrow> world" where
  "mounted tb =
     (case language_effect tb ''en'' of
        Some body \<Rightarrow>
          commit (en_entry tb) ''en'' body \<lparr>app = initial_state tb, dir = Ltr, pending = []\<rparr>
      | None \<Rightarrow> \<lparr>app = initial_state tb, dir = Ltr, pending = []\<rparr>)"

text \<open>
  Concrete data for evaluating the model. constants.ts is not among the sources, so the
  table used in evaluations takes for every string the name of its key; it has an
  English and an Arabic entry.
\<close>

definition sample_text :: UIText where
  "sample_text =
     \<lparr>title = ''title'', subtitle = ''subtitle'', findButton = ''findButton'',
      loadingButton = ''loadingButton'', loaderMessage = ''loaderMessage'',
      welcomeMessage = ''welcomeMessage'', manualLocationPrompt = ''manualLocationPrompt'',
      manualLocationPlaceholder = ''manualLocationPlaceholder'',
      searchButton = ''searchButton'', locationNotSupported = ''locationNotSupported'',
      locationPermissionDenied = ''locationPermissionDenied'',
      locationUnavailable = ''locationUnavailable'', locationTimeout = ''locationTimeout'',
      locationError = ''locationError'', manualLocationError = ''manualLocationError'',
      fetchError = ''fetchError''\<rparr>"

definition sample_text_ar :: UIText where
  "sample_text_ar = sample_text\<lparr>title := ''title (ar)'', fetchError := ''fetchError (ar)''\<rparr>"

definition sample_table :: ui_table where
  "sample_table =
     \<lparr>en_entry = sample_text,
      other_entries = (\<lambda>code. if code = ''ar'' then Some sample_text_ar else None)\<rparr>"

definition paris :: js_string where
  "paris = [0x50, 0x61, 0x72, 0x69, 0x73]"

definition blanks :: js_string where
  "blanks = [0x20, 0x20, 0x20]"

definition bistro :: Restaurant where
  "bistro = \<lparr>name = ''Chez Nous'', cuisine = ''French'', description = ''A small bistro''\<rparr>"

definition stale :: app_state where
  "stale =
     \<lparr>language = ''en'', restaurants = [bistro], loading = False,
      error = Some ''manualLocationError'', userLocation = None, uiText = sample_text,
      manualLocation = paris, showManualInput = True\<rparr>"

definition bay :: Coordinates where
  "bay = \<lparr>latitude = 37, longitude = - 122\<rparr>"

section \<open>Properties stated by the specification\<close>

text \<open>
  The three conditions of the specification's exclusivity property, read on the state:
  loading, an error message that is not null, a list of restaurants that is not empty.
\<close>

definition at_most_one :: "app_state \<Rightarrow> bool" where
  "at_most_one s =
     (length (filter id [loading s, error s \<noteq> None, restaurants s \<noteq> []]) \<le> 1)"

text \<open>Submitting the rendered manual form with a blank query while a list is shown.\<close>

definition blank_submit_over_results :: "event \<Rightarrow> world \<Rightarrow> bool" where
  "blank_submit_over_results ev w =
     (ev = ManualSubmit \<and> form_rendered (app w) \<and> trim (manualLocation (app w)) = []
      \<and> restaurants (app w) \<noteq> [])"

fun avoids_blank_submit :: "ui_table \<Rightarrow> bool \<Rightarrow> event list \<Rightarrow> world \<Rightarrow> bool" where
  "avoids_blank_submit tb geo [] w = True"
| "avoids_blank_submit tb geo (ev # evs) w =
     (\<not> blank_submit_over_results ev w \<and> avoids_blank_submit tb geo evs (step tb geo ev w))"

text \<open>
  What holds between any two handlers: the direction is that of the current language;
  while loading there is no message, no list and exactly one operation in flight;
  otherwise nothing is in flight.
\<close>

definition consistent :: "ui_table \<Rightarrow> world \<Rightarrow> bool" where
  "consistent tb w =
     (dir w = direction_of (language (app w))
      \<and> (loading (app w) \<longrightarrow>
            error (app w) = None \<and> restaurants (app w) = [] \<and> length (pending w) = 1)
      \<and> (\<not> loading (app w) \<longrightarrow> pending w = []))"

text \<open>The state a settled provider call leaves, on either search path.\<close>

definition settle :: "UIText \<Rightarrow> js_error + Restaurant list \<Rightarrow> app_state \<Rightarrow> app_state" where
  "settle txt settled s =
     (case settled of
        Inr rs \<Rightarrow> s\<lparr>restaurants := rs, loading := False\<rparr>
      | Inl err \<Rightarrow> s\<lparr>error := Some (fetchError txt), loading := False\<rparr>)"

section \<open>Running the handlers\<close>

lemmas handler_defs =
  exec_def handleFindRestaurants_def handleManualSearch_def position_callback_def
  position_resume_def manual_resume_def geoError_callback_def

lemma resolve_en: "resolve tb ''en'' = Entry (en_entry tb)"
  by (simp add: resolve_def UI_TEXT_def own_entry_def)

lemma language_effect_en:
  "language_effect tb ''en'' = Some [SetUiText (en_entry tb), Call (SetDocumentDir Ltr)]"
  by (simp add: language_effect_def resolve_en)

lemma dropWhile_all: "(\<forall>x \<in> set (dropWhile P xs). P x) \<longleftrightarrow> (\<forall>x \<in> set xs. P x)"
  by (induction xs) auto

lemma trim_empty_iff: "trim s = [] \<longleftrightarrow> (\<forall>c \<in> set s. is_white_space c)"
  by (simp add: trim_def dropWhile_all)

lemma mounted_eq: "mounted tb = \<lparr>app = initial_state tb, dir = Ltr, pending = []\<rparr>"
  by (simp add: mounted_def commit_def exec_def language_effect_en initial_state_def)

lemma step_language:
  "step tb geo (LanguageChange c) w =
     (if c = language (app w) then w
      else (case resolve tb c of
              Entry t \<Rightarrow>
                w\<lparr>app := (app w)\<lparr>language := c, uiText := t\<rparr>, dir := direction_of c\<rparr>
            | Inherited n \<Rightarrow>
                if n = ''constructor''
                then w\<lparr>app := (app w)\<lparr>language := c\<rparr>, dir := direction_of c\<rparr>
                else w
            | Undefined \<Rightarrow> w))"
  by (simp add: commit_def handler_defs language_effect_def direction_of_def
      split: table_value.splits)

lemma step_find:
  "step tb geo FindClick w =
     (if loading (app w) then w
      else if geo
      then w\<lparr>app := (app w)\<lparr>loading := True, error := None, restaurants := [],
                             showManualInput := False\<rparr>,
             pending := pending w @ [GeoCallbacks (uiText (app w)) (language (app w))]\<rparr>
      else w\<lparr>app := (app w)\<lparr>loading := False,
                             error := Some (locationNotSupported (uiText (app w))),
                             restaurants := [], showManualInput := True\<rparr>\<rparr>)"
  by (simp add: commit_def handler_defs find_enabled_def)

lemma step_input:
  "step tb geo (ManualInput v) w =
     (if form_rendered (app w) then w\<lparr>app := (app w)\<lparr>manualLocation := v\<rparr>\<rparr> else w)"
  by (simp add: commit_def exec_def)

lemma step_submit:
  "step tb geo ManualSubmit w =
     (if \<not> form_rendered (app w) then w
      else if trim (manualLocation (app w)) = []
      then w\<lparr>app := (app w)\<lparr>error := Some (manualLocationError (uiText (app w)))\<rparr>\<rparr>
      else w\<lparr>app := (app w)\<lparr>loading := True, error := None, restaurants := []\<rparr>,
             pending := pending w @ [ManualResume (uiText (app w))]\<rparr>)"
  by (simp add: commit_def handler_defs)

lemma step_geo_success:
  "step tb geo (GeoSuccess i coords) w =
     (if i < length (pending w)
      then (case pending w ! i of
              GeoCallbacks txt lang \<Rightarrow>
                w\<lparr>app := (app w)\<lparr>userLocation :=
                      Some \<lparr>latitude = latitude coords, longitude = longitude coords\<rparr>\<rparr>,
                  pending := drop_nth i (pending w) @ [PositionResume txt]\<rparr>
            | _ \<Rightarrow> w)
      else w)"
  by (simp add: commit_def handler_defs resume_def split: continuation.splits)

lemma step_geo_failure:
  "step tb geo (GeoFailure i code) w =
     (if i < length (pending w)
      then (case pending w ! i of
              GeoCallbacks txt lang \<Rightarrow>
                w\<lparr>app := (app w)\<lparr>error := Some (geoError_message txt code),
                                  showManualInput := True, loading := False\<rparr>,
                  pending := drop_nth i (pending w)\<rparr>
            | _ \<Rightarrow> w)
      else w)"
  by (simp add: commit_def handler_defs resume_def split: continuation.splits)

lemma step_settled:
  "step tb geo (FetchSettled i settled) w =
     (if i < length (pending w)
      then (case pending w ! i of
              GeoCallbacks txt lang \<Rightarrow> w
            | PositionResume txt \<Rightarrow>
                w\<lparr>app := settle txt settled (app w), pending := drop_nth i (pending w)\<rparr>
            | ManualResume txt \<Rightarrow>
                w\<lparr>app := settle txt settled (app w), pending := drop_nth i (pending w)\<rparr>)
      else w)"
  by (simp add: commit_def handler_defs resume_def settle_def
      split: continuation.splits sum.splits)

lemmas step_eqs =
  step_language step_find step_input step_submit step_geo_success step_geo_failure
  step_settled

declare step.simps [simp del]

lemma run_Nil: "run tb geo [] w = w"
  by (simp add: run_def)

lemma run_Cons: "run tb geo (ev # evs) w = run tb geo evs (step tb geo ev w)"
  by (simp add: run_def)

lemma drop_nth_single: "drop_nth 0 [k] = []"
  by (simp add: drop_nth_def)

lemma drop_nth_last: "drop_nth (length xs) (xs @ [k]) = xs"
  by (simp add: drop_nth_def)

section \<open>The invariant\<close>

lemma consistent_mounted: "consistent tb (mounted tb)"
  by (simp add: consistent_def mounted_eq initial_state_def direction_of_def)

lemma consistent_in_flight:
  assumes "consistent tb w" and "i < length (pending w)"
  obtains k where "pending w = [k]" and "i = 0" and "loading (app w)"
    and "error (app w) = None" and "restaurants (app w) = []"
proof -
  from assms have l: "loading (app w)" by (auto simp: consistent_def)
  with assms have "length (pending w) = 1" by (simp add: consistent_def)
  then obtain k where k: "pending w = [k]" by (cases "pending w") auto
  with assms(2) have "i = 0" by simp
  moreover from l assms(1) have "error (app w) = None" "restaurants (app w) = []"
    by (simp_all add: consistent_def)
  ultimately show thesis using that k l by blast
qed

lemma step_consistent: "consistent tb w \<Longrightarrow> consistent tb (step tb geo ev w)"
proof (cases ev)
  case (LanguageChange c)
  assume "consistent tb w"
  then show ?thesis unfolding LanguageChange step_language
    by (simp add: consistent_def split: table_value.splits)
next
  case FindClick
  assume "consistent tb w"
  then show ?thesis unfolding FindClick step_find by (simp add: consistent_def)
next
  case (ManualInput v)
  assume "consistent tb w"
  then show ?thesis unfolding ManualInput step_input by (simp add: consistent_def)
next
  case ManualSubmit
  assume "consistent tb w"
  then show ?thesis unfolding ManualSubmit step_submit
    by (simp add: consistent_def form_rendered_def)
next
  case (GeoSuccess i coords)
  assume a: "consistent tb w"
  show ?thesis
  proof (cases "i < length (pending w)")
    case True
    from a True obtain k where "pending w = [k]" "i = 0" "loading (app w)"
      "error (app w) = None" "restaurants (app w) = []" by (rule consistent_in_flight)
    with a show ?thesis unfolding GeoSuccess step_geo_success
      by (cases k) (simp_all add: consistent_def drop_nth_single)
  next
    case False
    with a show ?thesis unfolding GeoSuccess step_geo_success by simp
  qed
next
  case (GeoFailure i code)
  assume a: "consistent tb w"
  show ?thesis
  proof (cases "i < length (pending w)")
    case True
    from a True obtain k where "pending w = [k]" "i = 0" "loading (app w)"
      "error (app w) = None" "restaurants (app w) = []" by (rule consistent_in_flight)
    with a show ?thesis unfolding GeoFailure step_geo_failure
      by (cases k) (simp_all add: consistent_def drop_nth_single)
  next
    case False
    with a show ?thesis unfolding GeoFailure step_geo_failure by simp
  qed
next
  case (FetchSettled i settled)
  assume a: "consistent tb w"
  show ?thesis
  proof (cases "i < length (pending w)")
    case True
    from a True obtain k where "pending w = [k]" "i = 0" "loading (app w)"
      "error (app w) = None" "restaurants (app w) = []" by (rule consistent_in_flight)
    with a show ?thesis unfolding FetchSettled step_settled
      by (cases k; cases settled) (simp_all add: consistent_def settle_def drop_nth_single)
  next
    case False
    with a show ?thesis unfolding FetchSettled step_settled by simp
  qed
qed

lemma run_consistent: "consistent tb w \<Longrightarrow> consistent tb (run tb geo evs w)"
  by (induction evs arbitrary: w) (simp_all add: run_Nil run_Cons step_consistent)

lemma trim_samples: "trim paris \<noteq> []" "trim blanks = []" "trim [] = []"
  by (simp_all add: trim_def paris_def blanks_def is_white_space_def)

lemmas eval_defs =
  run_Cons run_Nil step_eqs mounted_eq initial_state_def form_rendered_def drop_nth_def
  settle_def trim_samples

section \<open>Exclusivity of loading, error and results\<close>

lemma at_most_one_iff:
  "at_most_one s \<longleftrightarrow>
     \<not> (loading s \<and> error s \<noteq> None) \<and> \<not> (loading s \<and> restaurants s \<noteq> [])
     \<and> \<not> (error s \<noteq> None \<and> restaurants s \<noteq> [])"
  by (auto simp: at_most_one_def)

lemma step_at_most_one:
  assumes c: "consistent tb w" and a: "at_most_one (app w)"
    and n: "\<not> blank_submit_over_results ev w"
  shows "at_most_one (app (step tb geo ev w))"
proof (cases ev)
  case (LanguageChange c)
  from a show ?thesis unfolding LanguageChange step_language
    by (simp add: at_most_one_iff split: table_value.splits)
next
  case FindClick
  from a show ?thesis unfolding FindClick step_find by (simp add: at_most_one_iff)
next
  case (ManualInput v)
  from a show ?thesis unfolding ManualInput step_input by (simp add: at_most_one_iff)
next
  case ManualSubmit
  from a n show ?thesis unfolding ManualSubmit step_submit
    by (auto simp: at_most_one_iff blank_submit_over_results_def form_rendered_def)
next
  case (GeoSuccess i coords)
  from a show ?thesis unfolding GeoSuccess step_geo_success
    by (simp add: at_most_one_iff split: continuation.splits)
next
  case (GeoFailure i code)
  show ?thesis
  proof (cases "i < length (pending w)")
    case True
    from c True obtain k where "pending w = [k]" "i = 0" "loading (app w)"
      "error (app w) = None" "restaurants (app w) = []" by (rule consistent_in_flight)
    then show ?thesis unfolding GeoFailure step_geo_failure
      by (cases k) (simp_all add: at_most_one_iff)
  next
    case False
    with a show ?thesis unfolding GeoFailure step_geo_failure by simp
  qed
next
  case (FetchSettled i settled)
  show ?thesis
  proof (cases "i < length (pending w)")
    case True
    from c True obtain k where "pending w = [k]" "i = 0" "loading (app w)"
      "error (app w) = None" "restaurants (app w) = []" by (rule consistent_in_flight)
    then show ?thesis unfolding FetchSettled step_settled
      by (cases k; cases settled) (simp_all add: at_most_one_iff settle_def)
  next
    case False
    with a show ?thesis unfolding FetchSettled step_settled by simp
  qed
qed

lemma run_at_most_one:
  "consistent tb w \<Longrightarrow> at_most_one (app w) \<Longrightarrow> avoids_blank_submit tb geo evs w \<Longrightarrow>
     at_most_one (app (run tb geo evs w))"
proof (induction evs arbitrary: w)
  case Nil
  then show ?case by (simp add: run_Nil)
next
  case (Cons ev evs)
  from Cons.prems have "consistent tb (step tb geo ev w)" by (simp add: step_consistent)
  moreover from Cons.prems have "at_most_one (app (step tb geo ev w))"
    by (simp add: step_at_most_one)
  moreover from Cons.prems have "avoids_blank_submit tb geo evs (step tb geo ev w)" by simp
  ultimately show ?case unfolding run_Cons by (rule Cons.IH)
qed

lemma at_most_one_mounted: "at_most_one (app (mounted tb))"
  by (simp add: at_most_one_def mounted_eq initial_state_def)

text \<open>
  Claim C1, as the specification states it, fails. After a location failure the manual
  form stays rendered; a manual search for "Paris" that returns one restaurant leaves the
  form and the list on screen; submitting the form again with a blank query sets the
  error message and returns before anything is cleared. The state then has a message and
  a list at once, and both are rendered.
\<close>

theorem exclusivity_counterexample:
  "\<not> at_most_one (app (run sample_table True
        [FindClick, GeoFailure 0 PERMISSION_DENIED, ManualInput paris, ManualSubmit,
         FetchSettled 0 (Inr [bistro]), ManualInput blanks, ManualSubmit]
        (mounted sample_table)))
   \<and> render (app (run sample_table True
        [FindClick, GeoFailure 0 PERMISSION_DENIED, ManualInput paris, ManualSubmit,
         FetchSettled 0 (Inr [bistro]), ManualInput blanks, ManualSubmit]
        (mounted sample_table)))
      = [ErrorDisplay ''manualLocationError'', ManualForm, RestaurantList [bistro]]"
  by (simp add: eval_defs at_most_one_def render_def truthy_def sample_table_def
      sample_text_def)

text \<open>
  Claim C1, amended. From the mounted component, after every sequence of user actions
  and asynchronous completions: while loading there is neither an error message nor a
  list of restaurants; and if no event of the sequence was a submit of the manual form
  with a blank query while restaurants were listed, at most one of loading, error and
  results holds.
\<close>

theorem exclusivity_amended:
  "(loading (app (run tb geo evs (mounted tb))) \<longrightarrow>
      error (app (run tb geo evs (mounted tb))) = None
      \<and> restaurants (app (run tb geo evs (mounted tb))) = [])
   \<and> (avoids_blank_submit tb geo evs (mounted tb) \<longrightarrow>
        at_most_one (app (run tb geo evs (mounted tb))))"
proof -
  have "consistent tb (run tb geo evs (mounted tb))"
    by (rule run_consistent [OF consistent_mounted])
  then have "loading (app (run tb geo evs (mounted tb))) \<longrightarrow>
      error (app (run tb geo evs (mounted tb))) = None
      \<and> restaurants (app (run tb geo evs (mounted tb))) = []"
    by (simp add: consistent_def)
  moreover have "avoids_blank_submit tb geo evs (mounted tb) \<longrightarrow>
        at_most_one (app (run tb geo evs (mounted tb)))"
    using run_at_most_one [OF consistent_mounted at_most_one_mounted] by blast
  ultimately show ?thesis by blast
qed

theorem exclusivity_amended_witness:
  "loading (app (run sample_table True [FindClick] (mounted sample_table)))
   \<and> error (app (run sample_table True [FindClick] (mounted sample_table))) = None
   \<and> restaurants (app (run sample_table True [FindClick] (mounted sample_table))) = []
   \<and> avoids_blank_submit sample_table True
        [FindClick, GeoFailure 0 PERMISSION_DENIED, ManualInput paris, ManualSubmit,
         FetchSettled 0 (Inr [bistro])] (mounted sample_table)
   \<and> at_most_one (app (run sample_table True
        [FindClick, GeoFailure 0 PERMISSION_DENIED, ManualInput paris, ManualSubmit,
         FetchSettled 0 (Inr [bistro])] (mounted sample_table)))"
proof -
  have l: "loading (app (run sample_table True [FindClick] (mounted sample_table)))"
    by (simp add: eval_defs)
  have a: "avoids_blank_submit sample_table True
        [FindClick, GeoFailure 0 PERMISSION_DENIED, ManualInput paris, ManualSubmit,
         FetchSettled 0 (Inr [bistro])] (mounted sample_table)"
    by (simp add: eval_defs blank_submit_over_results_def)
  show ?thesis
    using l a exclusivity_amended [of sample_table True "[FindClick]"]
      exclusivity_amended [of sample_table True
        "[FindClick, GeoFailure 0 PERMISSION_DENIED, ManualInput paris, ManualSubmit,
          FetchSettled 0 (Inr [bistro])]"]
    by blast
qed

section \<open>The guard of the manual search\<close>

text \<open>
  Claim C2. When the trimmed manual query is empty, \<open>handleManualSearch\<close> makes no
  provider call and no other asynchronous call, sets the error message to
  \<open>manualLocationError\<close> of the current strings, and does not touch \<open>loading\<close>.
\<close>

theorem manual_guard:
  "trim (manualLocation s) = [] \<Longrightarrow>
     filter (is_provider_call \<circ> fst) (snd (exec (handleManualSearch s) s)) = []
     \<and> filter (is_async_call \<circ> fst) (snd (exec (handleManualSearch s) s)) = []
     \<and> error (fst (exec (handleManualSearch s) s)) = Some (manualLocationError (uiText s))
     \<and> loading (fst (exec (handleManualSearch s) s)) = loading s"
  by (simp add: exec_def handleManualSearch_def)

theorem manual_guard_witness:
  "trim (manualLocation (initial_state sample_table\<lparr>manualLocation := blanks\<rparr>)) = []
   \<and> filter (is_provider_call \<circ> fst)
        (snd (exec (handleManualSearch (initial_state sample_table\<lparr>manualLocation := blanks\<rparr>))
               (initial_state sample_table\<lparr>manualLocation := blanks\<rparr>))) = []
   \<and> error (fst (exec (handleManualSearch (initial_state sample_table\<lparr>manualLocation := blanks\<rparr>))
                    (initial_state sample_table\<lparr>manualLocation := blanks\<rparr>)))
       = Some ''manualLocationError''"
proof -
  have h: "trim (manualLocation (initial_state sample_table\<lparr>manualLocation := blanks\<rparr>)) = []"
    by (simp add: trim_samples)
  show ?thesis
    using h manual_guard [OF h]
    by (simp add: initial_state_def sample_table_def sample_text_def)
qed

text \<open>
  Claim C10. When the trimmed manual query is empty, the state \<open>handleManualSearch\<close>
  leaves differs from the state it started in only in the error message: the list of
  restaurants, \<open>loading\<close>, the manual-entry flag, the user location, the language, the
  strings and the manual query are the same. In the component, the document direction
  and the operations in flight are the same too.
\<close>

theorem blank_submit_frame:
  "trim (manualLocation s) = [] \<Longrightarrow>
     fst (exec (handleManualSearch s) s) = s\<lparr>error := Some (manualLocationError (uiText s))\<rparr>
     \<and> (form_rendered s \<longrightarrow>
          step tb geo ManualSubmit \<lparr>app = s, dir = d, pending = ks\<rparr>
            = \<lparr>app = s\<lparr>error := Some (manualLocationError (uiText s))\<rparr>, dir = d,
               pending = ks\<rparr>)"
  by (simp add: exec_def handleManualSearch_def step_submit)

theorem blank_submit_frame_witness:
  "trim (manualLocation (initial_state sample_table
          \<lparr>restaurants := [bistro], showManualInput := True\<rparr>)) = []
   \<and> form_rendered (initial_state sample_table
          \<lparr>restaurants := [bistro], showManualInput := True\<rparr>)
   \<and> step sample_table True ManualSubmit
        \<lparr>app = initial_state sample_table\<lparr>restaurants := [bistro], showManualInput := True\<rparr>,
         dir = Ltr, pending = []\<rparr>
      = \<lparr>app = initial_state sample_table
            \<lparr>restaurants := [bistro], showManualInput := True,
             error := Some ''manualLocationError''\<rparr>,
         dir = Ltr, pending = []\<rparr>"
proof -
  have h: "trim (manualLocation (initial_state sample_table
          \<lparr>restaurants := [bistro], showManualInput := True\<rparr>)) = []"
    by (simp add: initial_state_def trim_samples)
  have f: "form_rendered (initial_state sample_table
          \<lparr>restaurants := [bistro], showManualInput := True\<rparr>)"
    by (simp add: initial_state_def form_rendered_def)
  show ?thesis
    using h f blank_submit_frame [OF h, of sample_table True Ltr "[]"]
    by (simp add: initial_state_def sample_table_def sample_text_def)
qed

section \<open>Starting a search\<close>

text \<open>
  A state the component reaches with a list and an error message both present, the
  manual form rendered and a non-blank query typed.
\<close>

lemma stale_reached:
  "app (run sample_table True
         [FindClick, GeoFailure 0 PERMISSION_DENIED, ManualInput paris, ManualSubmit,
          FetchSettled 0 (Inr [bistro]), ManualInput blanks, ManualSubmit, ManualInput paris]
         (mounted sample_table)) = stale"
  by (simp add: eval_defs stale_def sample_table_def sample_text_def)

text \<open>
  Claim C3, as the specification states it, fails. When \<open>handleManualSearch\<close> calls the
  provider, and when \<open>handleFindRestaurants\<close> requests the position, the setters have
  only queued the reset: the state cells still hold the list and the error message the
  handler started with.
\<close>

theorem reset_before_dispatch_counterexample:
  "restaurants stale = [bistro]
   \<and> error stale = Some ''manualLocationError''
   \<and> snd (exec (handleManualSearch stale) stale) =
       [(PreventDefault, stale, stale),
        (FetchRestaurantsByQuery paris ''en'', stale,
         stale\<lparr>loading := True, error := None, restaurants := []\<rparr>)]
   \<and> snd (exec (handleFindRestaurants True stale) stale) =
       [(GetCurrentPosition, stale,
         stale\<lparr>loading := True, error := None, restaurants := [],
               showManualInput := False\<rparr>)]"
  by (simp add: handler_defs stale_def trim_samples)

text \<open>
  Claim C3, amended. In both search starts the setters that reset the list and the
  error message (and, on the automatic path, the manual-entry flag) are called before
  the asynchronous call, so at the call the reset is queued while the cells hold what
  they held before; nothing is set after the call, and the handler commits the reset
  together with \<open>loading\<close>. In every state the mounted component can reach in which an
  asynchronous call is in flight, \<open>loading\<close> is set, the error message is null and the
  list is empty.
\<close>

theorem reset_before_dispatch:
  "exec (handleFindRestaurants True s) s =
     (s\<lparr>loading := True, error := None, restaurants := [], showManualInput := False\<rparr>,
      [(GetCurrentPosition, s,
        s\<lparr>loading := True, error := None, restaurants := [], showManualInput := False\<rparr>)])
   \<and> (trim (manualLocation s) \<noteq> [] \<longrightarrow>
        exec (handleManualSearch s) s =
          (s\<lparr>loading := True, error := None, restaurants := []\<rparr>,
           [(PreventDefault, s, s),
            (FetchRestaurantsByQuery (manualLocation s) (language s), s,
             s\<lparr>loading := True, error := None, restaurants := []\<rparr>)]))
   \<and> (i < length (pending (run tb geo evs (mounted tb))) \<longrightarrow>
        loading (app (run tb geo evs (mounted tb)))
        \<and> error (app (run tb geo evs (mounted tb))) = None
        \<and> restaurants (app (run tb geo evs (mounted tb))) = [])"
  (is "?automatic \<and> ?manual \<and> ?in_flight")
proof -
  have 1: ?automatic and 2: ?manual
    by (simp_all add: handler_defs)
  have c: "consistent tb (run tb geo evs (mounted tb))"
    by (rule run_consistent [OF consistent_mounted])
  have 3: ?in_flight
  proof
    assume a: "i < length (pending (run tb geo evs (mounted tb)))"
    from c a obtain k where "loading (app (run tb geo evs (mounted tb)))"
      "error (app (run tb geo evs (mounted tb))) = None"
      "restaurants (app (run tb geo evs (mounted tb))) = []"
      by (rule consistent_in_flight)
    then show "loading (app (run tb geo evs (mounted tb)))
        \<and> error (app (run tb geo evs (mounted tb))) = None
        \<and> restaurants (app (run tb geo evs (mounted tb))) = []"
      by simp
  qed
  from 1 2 3 show ?thesis by (intro conjI)
qed

theorem reset_before_dispatch_witness:
  "trim (manualLocation stale) \<noteq> []
   \<and> exec (handleManualSearch stale) stale =
       (stale\<lparr>loading := True, error := None, restaurants := []\<rparr>,
        [(PreventDefault, stale, stale),
         (FetchRestaurantsByQuery paris ''en'', stale,
          stale\<lparr>loading := True, error := None, restaurants := []\<rparr>)])
   \<and> pending (run sample_table True
        [FindClick, GeoFailure 0 PERMISSION_DENIED, ManualInput paris, ManualSubmit]
        (mounted sample_table)) = [ManualResume sample_text]
   \<and> loading (app (run sample_table True
        [FindClick, GeoFailure 0 PERMISSION_DENIED, ManualInput paris, ManualSubmit]
        (mounted sample_table)))
   \<and> restaurants (app (run sample_table True
        [FindClick, GeoFailure 0 PERMISSION_DENIED, ManualInput paris, ManualSubmit]
        (mounted sample_table))) = []"
proof -
  have h: "trim (manualLocation stale) \<noteq> []"
    by (simp add: stale_def trim_samples)
  have p: "pending (run sample_table True
        [FindClick, GeoFailure 0 PERMISSION_DENIED, ManualInput paris, ManualSubmit]
        (mounted sample_table)) = [ManualResume sample_text]"
    by (simp add: eval_defs sample_table_def)
  show ?thesis
    using h p
      reset_before_dispatch [where s = stale and i = 0 and tb = sample_table and geo = True
        and evs = "[FindClick, GeoFailure 0 PERMISSION_DENIED, ManualInput paris,
                    ManualSubmit]"]
    by (simp add: stale_def)
qed

text \<open>
  Claim C5. Without the geolocation capability, \<open>handleFindRestaurants\<close> makes no call
  at all and leaves the state with the error message \<open>locationNotSupported\<close>, the
  manual-entry flag set and \<open>loading\<close> cleared, so that the manual form is rendered and
  the loader is not.
\<close>

theorem capability_short_circuit:
  "exec (handleFindRestaurants False s) s =
     (s\<lparr>loading := False, error := Some (locationNotSupported (uiText s)),
        restaurants := [], showManualInput := True\<rparr>, [])
   \<and> ManualForm \<in> set (render (fst (exec (handleFindRestaurants False s) s)))
   \<and> Loader (loaderMessage (uiText s))
        \<notin> set (render (fst (exec (handleFindRestaurants False s) s)))
   \<and> pending (step tb False FindClick \<lparr>app = s, dir = d, pending = ks\<rparr>) = ks"
  by (simp add: exec_def handleFindRestaurants_def render_def step_find truthy_def
      split: option.splits)

section \<open>Location failures\<close>

text \<open>
  Claim C4. The failure callback takes \<open>PERMISSION_DENIED\<close> to
  \<open>locationPermissionDenied\<close>, \<open>POSITION_UNAVAILABLE\<close> to \<open>locationUnavailable\<close>,
  \<open>TIMEOUT\<close> to \<open>locationTimeout\<close> and every other code to \<open>locationError\<close>; for every
  code it sets the message, sets the manual-entry flag and clears \<open>loading\<close>, and makes
  no call. Where the table gives these four keys distinct, non-empty strings, the four
  messages are distinct and non-empty.
\<close>

theorem location_failure_classification:
  "geoError_message txt PERMISSION_DENIED = locationPermissionDenied txt
   \<and> geoError_message txt POSITION_UNAVAILABLE = locationUnavailable txt
   \<and> geoError_message txt TIMEOUT = locationTimeout txt
   \<and> (code \<notin> {PERMISSION_DENIED, POSITION_UNAVAILABLE, TIMEOUT} \<longrightarrow>
        geoError_message txt code = locationError txt)
   \<and> exec (geoError_callback txt code) s =
       (s\<lparr>error := Some (geoError_message txt code), showManualInput := True,
          loading := False\<rparr>, [])
   \<and> (distinct [locationPermissionDenied txt, locationUnavailable txt, locationTimeout txt,
                 locationError txt]
        \<and> [] \<notin> set [locationPermissionDenied txt, locationUnavailable txt,
                       locationTimeout txt, locationError txt]
        \<and> code \<notin> {PERMISSION_DENIED, POSITION_UNAVAILABLE, TIMEOUT} \<longrightarrow>
        distinct (map (geoError_message txt)
                    [PERMISSION_DENIED, POSITION_UNAVAILABLE, TIMEOUT, code])
        \<and> [] \<notin> set (map (geoError_message txt)
                    [PERMISSION_DENIED, POSITION_UNAVAILABLE, TIMEOUT, code]))"
  by (simp add: exec_def geoError_message_def geoError_callback_def PERMISSION_DENIED_def
      POSITION_UNAVAILABLE_def TIMEOUT_def)

theorem location_failure_classification_witness:
  "distinct [locationPermissionDenied sample_text, locationUnavailable sample_text,
             locationTimeout sample_text, locationError sample_text]
   \<and> [] \<notin> set [locationPermissionDenied sample_text, locationUnavailable sample_text,
                  locationTimeout sample_text, locationError sample_text]
   \<and> (0::nat) \<notin> {PERMISSION_DENIED, POSITION_UNAVAILABLE, TIMEOUT}
   \<and> map (geoError_message sample_text) [PERMISSION_DENIED, POSITION_UNAVAILABLE, TIMEOUT, 0]
      = [''locationPermissionDenied'', ''locationUnavailable'', ''locationTimeout'',
         ''locationError'']"
proof -
  have h: "distinct [locationPermissionDenied sample_text, locationUnavailable sample_text,
             locationTimeout sample_text, locationError sample_text]
   \<and> [] \<notin> set [locationPermissionDenied sample_text, locationUnavailable sample_text,
                  locationTimeout sample_text, locationError sample_text]
   \<and> (0::nat) \<notin> {PERMISSION_DENIED, POSITION_UNAVAILABLE, TIMEOUT}"
    by (simp add: sample_text_def PERMISSION_DENIED_def POSITION_UNAVAILABLE_def TIMEOUT_def)
  show ?thesis
    using h location_failure_classification [of sample_text 0]
    by (simp add: sample_text_def)
qed

section \<open>Provider failures\<close>

lemma failure_in_flight:
  assumes c: "consistent tb w" and i: "i < length (pending w)"
    and k: "pending w ! i = PositionResume txt \<or> pending w ! i = ManualResume txt"
  shows "app (step tb geo (FetchSettled i (Inl err)) w)
           = (app w)\<lparr>error := Some (fetchError txt), loading := False\<rparr>
         \<and> restaurants (app w) = []
         \<and> pending (step tb geo (FetchSettled i (Inl err)) w) = []"
proof -
  from c i obtain k' where p: "pending w = [k']" "i = 0" and r: "restaurants (app w) = []"
    by (rule consistent_in_flight)
  from k p r show ?thesis
    unfolding step_settled by (auto simp: settle_def drop_nth_single)
qed

text \<open>
  Claim C6. When the provider's promise rejects, on either search path, the rest of the
  handler catches the thrown value, sets the error message to \<open>fetchError\<close> of the
  strings the handler closed over, leaves the list as it is and clears \<open>loading\<close>;
  nothing is thrown on. From any state where the find button is enabled, an automatic
  search whose provider call throws ends with the message \<open>fetchError\<close>, an empty list
  and \<open>loading\<close> cleared; so does a manual search with a non-blank query from any state
  where the form is rendered. In every state the mounted component can reach, a
  provider call in flight that throws finds the list empty and leaves it so.
\<close>

theorem provider_failure:
  "exec (position_resume strs (Inl err)) s =
     (s\<lparr>error := Some (fetchError strs), loading := False\<rparr>,
      [(ConsoleError err, s, s\<lparr>error := Some (fetchError strs)\<rparr>)])
   \<and> exec (manual_resume strs (Inl err)) s =
     (s\<lparr>error := Some (fetchError strs), loading := False\<rparr>,
      [(ConsoleError err, s, s\<lparr>error := Some (fetchError strs)\<rparr>)])
   \<and> (find_enabled (app w) \<longrightarrow>
        app (run tb True
               [FindClick, GeoSuccess (length (pending w)) coords,
                FetchSettled (length (pending w)) (Inl err)] w)
          = (app w)\<lparr>error := Some (fetchError (uiText (app w))), restaurants := [],
                    loading := False, showManualInput := False,
                    userLocation := Some \<lparr>latitude = latitude coords,
                                          longitude = longitude coords\<rparr>\<rparr>
        \<and> pending (run tb True
               [FindClick, GeoSuccess (length (pending w)) coords,
                FetchSettled (length (pending w)) (Inl err)] w) = pending w)
   \<and> (form_rendered (app w) \<and> trim (manualLocation (app w)) \<noteq> [] \<longrightarrow>
        app (run tb geo [ManualSubmit, FetchSettled (length (pending w)) (Inl err)] w)
          = (app w)\<lparr>error := Some (fetchError (uiText (app w))), restaurants := [],
                    loading := False\<rparr>
        \<and> pending (run tb geo [ManualSubmit, FetchSettled (length (pending w)) (Inl err)] w)
            = pending w)
   \<and> (i < length (pending (run tb geo evs (mounted tb)))
        \<and> (pending (run tb geo evs (mounted tb)) ! i = PositionResume strs
           \<or> pending (run tb geo evs (mounted tb)) ! i = ManualResume strs) \<longrightarrow>
        app (step tb geo (FetchSettled i (Inl err)) (run tb geo evs (mounted tb)))
          = (app (run tb geo evs (mounted tb)))
              \<lparr>error := Some (fetchError strs), loading := False\<rparr>
        \<and> restaurants (app (run tb geo evs (mounted tb))) = []
        \<and> pending (step tb geo (FetchSettled i (Inl err)) (run tb geo evs (mounted tb)))
            = [])"
  (is "?position \<and> ?manual \<and> ?automatic_run \<and> ?manual_run \<and> ?reachable")
proof -
  have 1: ?position and 2: ?manual
    by (simp_all add: handler_defs)
  have 3: ?automatic_run
    by (simp add: run_Cons run_Nil step_eqs find_enabled_def drop_nth_last settle_def)
  have 4: ?manual_run
    by (simp add: run_Cons run_Nil step_eqs form_rendered_def drop_nth_last settle_def)
  have c: "consistent tb (run tb geo evs (mounted tb))"
    by (rule run_consistent [OF consistent_mounted])
  have 5: ?reachable
  proof (intro impI, elim conjE)
    assume a: "i < length (pending (run tb geo evs (mounted tb)))"
      and b: "pending (run tb geo evs (mounted tb)) ! i = PositionResume strs
              \<or> pending (run tb geo evs (mounted tb)) ! i = ManualResume strs"
    show "app (step tb geo (FetchSettled i (Inl err)) (run tb geo evs (mounted tb)))
            = (app (run tb geo evs (mounted tb)))
                \<lparr>error := Some (fetchError strs), loading := False\<rparr>
          \<and> restaurants (app (run tb geo evs (mounted tb))) = []
          \<and> pending (step tb geo (FetchSettled i (Inl err)) (run tb geo evs (mounted tb)))
              = []"
      by (rule failure_in_flight [OF c a b])
  qed
  from 1 2 3 4 5 show ?thesis by (intro conjI)
qed

theorem provider_failure_witness:
  "find_enabled (app (mounted sample_table))
   \<and> error (app (run sample_table True
               [FindClick, GeoSuccess 0 bay, FetchSettled 0 (Inl ''network down'')]
               (mounted sample_table))) = Some ''fetchError''
   \<and> restaurants (app (run sample_table True
               [FindClick, GeoSuccess 0 bay, FetchSettled 0 (Inl ''network down'')]
               (mounted sample_table))) = []
   \<and> \<not> loading (app (run sample_table True
               [FindClick, GeoSuccess 0 bay, FetchSettled 0 (Inl ''network down'')]
               (mounted sample_table)))
   \<and> form_rendered (app \<lparr>app = initial_state sample_table
                             \<lparr>showManualInput := True, manualLocation := paris\<rparr>,
                          dir = Ltr, pending = []\<rparr>)
   \<and> trim (manualLocation (app \<lparr>app = initial_state sample_table
                             \<lparr>showManualInput := True, manualLocation := paris\<rparr>,
                          dir = Ltr, pending = []\<rparr>)) \<noteq> []
   \<and> error (app (run sample_table True [ManualSubmit, FetchSettled 0 (Inl ''network down'')]
               \<lparr>app = initial_state sample_table
                             \<lparr>showManualInput := True, manualLocation := paris\<rparr>,
                          dir = Ltr, pending = []\<rparr>)) = Some ''fetchError''
   \<and> pending (run sample_table True [FindClick, GeoSuccess 0 bay] (mounted sample_table))
       = [PositionResume sample_text]
   \<and> error (app (step sample_table True (FetchSettled 0 (Inl ''network down''))
              (run sample_table True [FindClick, GeoSuccess 0 bay] (mounted sample_table))))
       = Some ''fetchError''"
proof -
  have h1: "find_enabled (app (mounted sample_table))"
    by (simp add: mounted_eq initial_state_def find_enabled_def)
  have h2: "form_rendered (app \<lparr>app = initial_state sample_table
                             \<lparr>showManualInput := True, manualLocation := paris\<rparr>,
                          dir = Ltr, pending = []\<rparr>)
   \<and> trim (manualLocation (app \<lparr>app = initial_state sample_table
                             \<lparr>showManualInput := True, manualLocation := paris\<rparr>,
                          dir = Ltr, pending = []\<rparr>)) \<noteq> []"
    by (simp add: initial_state_def form_rendered_def trim_samples)
  have h3: "pending (run sample_table True [FindClick, GeoSuccess 0 bay]
                (mounted sample_table)) = [PositionResume sample_text]"
    by (simp add: eval_defs sample_table_def)
  show ?thesis
    using h1 h2 h3
      provider_failure [where tb = sample_table and geo = True
        and evs = "[FindClick, GeoSuccess 0 bay]" and i = 0 and strs = sample_text
        and err = "''network down''"]
      provider_failure [where w = "mounted sample_table" and tb = sample_table and coords = bay
        and err = "''network down''"]
      provider_failure [where w = "\<lparr>app = initial_state sample_table
                             \<lparr>showManualInput := True, manualLocation := paris\<rparr>,
                          dir = Ltr, pending = []\<rparr>" and tb = sample_table
        and err = "''network down''" and geo = True]
    by (simp add: mounted_eq initial_state_def sample_table_def sample_text_def)
qed

section \<open>Localization\<close>




section \<open>An empty successful response\<close>

text \<open>
  Claim C8. A manual search with a non-blank query whose provider call succeeds with an
  empty list ends with an empty list, no error message and \<open>loading\<close> cleared; nothing
  but the manual form is rendered.
\<close>

theorem empty_result_is_not_an_error:
  "form_rendered (app w) \<and> trim (manualLocation (app w)) \<noteq> [] \<longrightarrow>
     app (run tb geo [ManualSubmit, FetchSettled (length (pending w)) (Inr [])] w)
       = (app w)\<lparr>error := None, restaurants := [], loading := False\<rparr>
     \<and> render (app (run tb geo [ManualSubmit, FetchSettled (length (pending w)) (Inr [])] w))
         = [ManualForm]"
  by (simp add: run_Cons run_Nil step_eqs form_rendered_def drop_nth_last settle_def
      render_def truthy_def)

theorem empty_result_witness:
  "form_rendered (app \<lparr>app = initial_state sample_table
                             \<lparr>showManualInput := True, manualLocation := paris\<rparr>,
                          dir = Ltr, pending = []\<rparr>)
   \<and> trim (manualLocation (app \<lparr>app = initial_state sample_table
                             \<lparr>showManualInput := True, manualLocation := paris\<rparr>,
                          dir = Ltr, pending = []\<rparr>)) \<noteq> []
   \<and> render (app (run sample_table True [ManualSubmit, FetchSettled 0 (Inr [])]
               \<lparr>app = initial_state sample_table
                             \<lparr>showManualInput := True, manualLocation := paris\<rparr>,
                          dir = Ltr, pending = []\<rparr>)) = [ManualForm]
   \<and> error (app (run sample_table True [ManualSubmit, FetchSettled 0 (Inr [])]
               \<lparr>app = initial_state sample_table
                             \<lparr>showManualInput := True, manualLocation := paris\<rparr>,
                          dir = Ltr, pending = []\<rparr>)) = None"
proof -
  have h: "form_rendered (app \<lparr>app = initial_state sample_table
                             \<lparr>showManualInput := True, manualLocation := paris\<rparr>,
                          dir = Ltr, pending = []\<rparr>)
   \<and> trim (manualLocation (app \<lparr>app = initial_state sample_table
                             \<lparr>showManualInput := True, manualLocation := paris\<rparr>,
                          dir = Ltr, pending = []\<rparr>)) \<noteq> []"
    by (simp add: initial_state_def form_rendered_def trim_samples)
  show ?thesis
    using h empty_result_is_not_an_error [where w = "\<lparr>app = initial_state sample_table
                             \<lparr>showManualInput := True, manualLocation := paris\<rparr>,
                          dir = Ltr, pending = []\<rparr>" and tb = sample_table and geo = True]
    by (simp add: initial_state_def render_def truthy_def)
qed

section \<open>The welcome placeholder\<close>

text \<open>
  Claim C9, as the specification states it, fails: the render condition reads the
  current state only. An automatic search whose provider call throws ends in an error;
  a second automatic search that returns an empty list then renders the welcome
  placeholder again.
\<close>

theorem welcome_counterexample:
  "error (app (run sample_table True
       [FindClick, GeoSuccess 0 bay, FetchSettled 0 (Inl ''network down'')]
       (mounted sample_table))) = Some ''fetchError''
   \<and> render (app (run sample_table True
       [FindClick, GeoSuccess 0 bay, FetchSettled 0 (Inl ''network down''),
        FindClick, GeoSuccess 0 bay, FetchSettled 0 (Inr [])]
       (mounted sample_table))) = [Welcome ''welcomeMessage'']"
  by (simp add: eval_defs render_def truthy_def sample_table_def sample_text_def)

text \<open>
  Claim C9, amended. The welcome placeholder is rendered exactly when the component is
  not loading, the error message is null or empty, the list is empty and the
  manual-entry flag is off. Whatever came before, an automatic search that returns an
  empty list renders the welcome placeholder and nothing else.
\<close>

theorem welcome_amended:
  "((\<exists>v. Welcome v \<in> set (render s)) \<longleftrightarrow>
      \<not> loading s \<and> \<not> truthy (error s) \<and> restaurants s = [] \<and> \<not> showManualInput s)
   \<and> (find_enabled (app w) \<longrightarrow>
        render (app (run tb True
                 [FindClick, GeoSuccess (length (pending w)) coords,
                  FetchSettled (length (pending w)) (Inr [])] w))
          = [Welcome (welcomeMessage (uiText (app w)))])"
  by (auto simp: render_def truthy_def run_Cons run_Nil step_eqs find_enabled_def
      drop_nth_last settle_def split: option.splits)

theorem welcome_amended_witness:
  "find_enabled (app (run sample_table True
       [FindClick, GeoSuccess 0 bay, FetchSettled 0 (Inr [bistro])] (mounted sample_table)))
   \<and> restaurants (app (run sample_table True
       [FindClick, GeoSuccess 0 bay, FetchSettled 0 (Inr [bistro])] (mounted sample_table)))
      = [bistro]
   \<and> render (app (run sample_table True
        [FindClick, GeoSuccess 0 bay, FetchSettled 0 (Inr [])]
        (run sample_table True
           [FindClick, GeoSuccess 0 bay, FetchSettled 0 (Inr [bistro])]
           (mounted sample_table)))) = [Welcome ''welcomeMessage'']"
proof -
  have h: "find_enabled (app (run sample_table True
       [FindClick, GeoSuccess 0 bay, FetchSettled 0 (Inr [bistro])] (mounted sample_table)))"
    by (simp add: eval_defs find_enabled_def)
  have p: "pending (run sample_table True
       [FindClick, GeoSuccess 0 bay, FetchSettled 0 (Inr [bistro])] (mounted sample_table)) = []"
    by (simp add: eval_defs)
  have r: "restaurants (app (run sample_table True
       [FindClick, GeoSuccess 0 bay, FetchSettled 0 (Inr [bistro])] (mounted sample_table)))
      = [bistro]"
    "uiText (app (run sample_table True
       [FindClick, GeoSuccess 0 bay, FetchSettled 0 (Inr [bistro])] (mounted sample_table)))
      = sample_text"
    by (simp_all add: eval_defs sample_table_def)
  show ?thesis
    using h p r welcome_amended [where w = "run sample_table True
       [FindClick, GeoSuccess 0 bay, FetchSettled 0 (Inr [bistro])] (mounted sample_table)"
       and tb = sample_table and coords = bay]
    by (simp add: sample_text_def)
qed

end
